theory Spec2Isabelle
  imports Complex_Main "HOL-Library.Sublist"
begin

section \<open>Values of the JavaScript runtime\<close>

text \<open>
  The server is \<^verbatim>\<open>stripe/src/index.ts\<close>. A JavaScript number that has passed
  \<^verbatim>\<open>z.number()\<close> is a double other than NaN: a finite value (every finite double is a
  real) or one of the two infinities.
\<close>

datatype number = NegInfinity | Finite real | Infinity

fun number_le :: "number \<Rightarrow> number \<Rightarrow> bool" where
  "number_le NegInfinity _ = True"
| "number_le _ Infinity = True"
| "number_le (Finite a) (Finite b) = (a \<le> b)"
| "number_le _ _ = False"

definition Math_max :: "number \<Rightarrow> number \<Rightarrow> number" where
  "Math_max a b = (if number_le a b then b else a)"

definition Math_min :: "number \<Rightarrow> number \<Rightarrow> number" where
  "Math_min a b = (if number_le a b then a else b)"

text \<open>The values \<^verbatim>\<open>JSON.parse\<close> returns, and the objects the handlers build.\<close>

datatype jsval =
    JNull
  | JBool bool
  | JNum number
  | JStr string
  | JArr "jsval list"
  | JObj "(string \<times> jsval) list"

text \<open>Truthiness, as \<^verbatim>\<open>if (x)\<close> and \<^verbatim>\<open>!x\<close> test it.\<close>

definition truthy_number :: "number \<Rightarrow> bool" where
  "truthy_number n = (n \<noteq> Finite 0)"

fun truthy :: "jsval \<Rightarrow> bool" where
  "truthy JNull = False"
| "truthy (JBool b) = b"
| "truthy (JNum n) = truthy_number n"
| "truthy (JStr s) = (s \<noteq> [])"
| "truthy (JArr _) = True"
| "truthy (JObj _) = True"

text \<open>
  An optional argument is \<open>None\<close> when the caller left it out (\<^verbatim>\<open>undefined\<close>).
  An optional string is truthy when it is present and not empty; an array is truthy
  whenever it is present.
\<close>

definition truthy_string :: "string option \<Rightarrow> bool" where
  "truthy_string x = (case x of None \<Rightarrow> False | Some s \<Rightarrow> s \<noteq> [])"

definition startsWith :: "string \<Rightarrow> string \<Rightarrow> bool" where
  "startsWith s p = prefix p s"

text \<open>
  Built-in functions of the runtime that the handlers call. They are parameters of the
  model: \<open>JSON_parse\<close> is \<^verbatim>\<open>JSON.parse\<close> (\<open>None\<close> when it throws),
  \<open>toUpperCase\<close> is \<^verbatim>\<open>String.prototype.toUpperCase\<close>, and \<open>hundredth_text\<close> renders
  \<^verbatim>\<open>${n / 100}\<close>, the floating-point quotient as a template literal prints it.
\<close>

record runtime =
  JSON_parse :: "string \<Rightarrow> jsval option"
  toUpperCase :: "string \<Rightarrow> string"
  hundredth_text :: "number \<Rightarrow> string"

text \<open>The decimal text of an array length, as a template literal prints it.\<close>

definition digit_char :: "nat \<Rightarrow> char" where
  "digit_char d = ''0123456789'' ! d"

function show_nat :: "nat \<Rightarrow> string" where
  "show_nat n = (if n < 10 then [digit_char n] else show_nat (n div 10) @ [digit_char (n mod 10)])"
  by pat_completeness auto
termination
  by (relation "measure (\<lambda>n. n)") auto

declare show_nat.simps [simp del]

section \<open>The Stripe client\<close>

text \<open>
  The objects the Stripe client returns, with the fields the handlers read (typed as the
  client's declarations type them) and the remaining properties in \<open>other\<close>.
\<close>

record product =
  prod_name :: string
  prod_other :: jsval

record recurring =
  interval :: string
  recurring_other :: jsval

record price =
  price_unit_amount :: "number option"
  price_currency :: string
  price_recurring :: "recurring option"
  price_other :: jsval

record webhook_endpoint =
  endpoint_url :: string
  endpoint_other :: jsval

record configuration =
  config_id :: string
  config_other :: jsval

record 'a api_list =
  data :: "'a list"
  has_more :: bool

text \<open>
  The client is a parameter too. A call takes the client's state to a result and the next
  state; \<open>Inl m\<close> is a thrown error, kept as the text \<^verbatim>\<open>handleError\<close> reads from it
  (\<^verbatim>\<open>error.message\<close>, or \<^verbatim>\<open>String(error)\<close>). Whatever the state is, a handler that
  leaves it untouched for every client has called none of its methods: the state of a
  client that counts its invocations would have moved.
\<close>

type_synonym ('s, 'a) call = "'s \<Rightarrow> (string + 'a) \<times> 's"

record 's stripe_client =
  products_create :: "jsval \<Rightarrow> ('s, product) call"
  products_list :: "jsval \<Rightarrow> ('s, product api_list) call"
  products_retrieve :: "string \<Rightarrow> ('s, product) call"
  products_update :: "string \<Rightarrow> jsval \<Rightarrow> ('s, product) call"
  prices_create :: "jsval \<Rightarrow> ('s, price) call"
  prices_list :: "jsval \<Rightarrow> ('s, price api_list) call"
  prices_retrieve :: "string \<Rightarrow> ('s, price) call"
  prices_update :: "string \<Rightarrow> jsval \<Rightarrow> ('s, price) call"
  webhookEndpoints_create :: "jsval \<Rightarrow> ('s, webhook_endpoint) call"
  webhookEndpoints_list :: "jsval \<Rightarrow> ('s, webhook_endpoint api_list) call"
  webhookEndpoints_retrieve :: "string \<Rightarrow> ('s, webhook_endpoint) call"
  webhookEndpoints_update :: "string \<Rightarrow> jsval \<Rightarrow> ('s, webhook_endpoint) call"
  webhookEndpoints_del :: "string \<Rightarrow> ('s, jsval) call"
  configurations_create :: "jsval \<Rightarrow> ('s, configuration) call"
  configurations_list :: "jsval \<Rightarrow> ('s, configuration api_list) call"
  configurations_retrieve :: "string \<Rightarrow> ('s, configuration) call"
  configurations_update :: "string \<Rightarrow> jsval \<Rightarrow> ('s, configuration) call"
  events_list :: "jsval \<Rightarrow> ('s, jsval api_list) call"
  charges_list :: "jsval \<Rightarrow> ('s, jsval api_list) call"
  paymentIntents_list :: "jsval \<Rightarrow> ('s, jsval api_list) call"
  customers_list :: "jsval \<Rightarrow> ('s, jsval api_list) call"
  subscriptions_list :: "jsval \<Rightarrow> ('s, jsval api_list) call"
  invoices_list :: "jsval \<Rightarrow> ('s, jsval api_list) call"

section \<open>Tool responses\<close>

text \<open>
  Every handler returns \<^verbatim>\<open>{content: [{type: "text", text: JSON.stringify(p, null, 2)}]}\<close>;
  the payload \<open>p\<close> is one of these object literals.
\<close>

datatype query_data =
    Objects "jsval list"
  | Products "product list"
  | Prices "price list"

datatype payload =
    Failure string
      \<comment> \<open>\<^verbatim>\<open>{success: false, error}\<close>\<close>
  | Product_payload product string
      \<comment> \<open>\<^verbatim>\<open>{success: true, product, message}\<close>\<close>
  | Products_payload "product list" string
  | Price_payload price string
  | Prices_payload "price list" string
  | Webhook_payload webhook_endpoint string
  | Webhooks_payload "webhook_endpoint list" string
  | Deleted_webhook_payload jsval string
  | Configuration_payload configuration string
  | Configurations_payload "configuration list" string
  | Query_payload string nat bool query_data string
      \<comment> \<open>\<^verbatim>\<open>{success: true, resource, count, has_more, data, message}\<close>\<close>

definition handleError :: "string \<Rightarrow> payload" where
  "handleError error = Failure error"

text \<open>
  \<^verbatim>\<open>const x = await stripe.m(...); return k(x)\<close> inside the handler's \<^verbatim>\<open>try\<close>: a thrown
  error goes to \<^verbatim>\<open>handleError\<close>. \<open>reply\<close> returns without calling the client.
\<close>

definition await :: "('s, 'a) call \<Rightarrow> ('a \<Rightarrow> payload) \<Rightarrow> 's \<Rightarrow> payload \<times> 's" where
  "await m k s = (case m s of (Inl error, s') \<Rightarrow> (handleError error, s') | (Inr x, s') \<Rightarrow> (k x, s'))"

definition reply :: "payload \<Rightarrow> 's \<Rightarrow> payload \<times> 's" where
  "reply p s = (p, s)"

text \<open>
  Optional properties of a parameter object. \<^verbatim>\<open>if (x) params.k = x\<close> adds the property
  when \<open>x\<close> is truthy, \<^verbatim>\<open>if (x !== undefined) params.k = x\<close> when it is present.
\<close>

definition property_if :: "bool \<Rightarrow> string \<Rightarrow> jsval \<Rightarrow> (string \<times> jsval) list" where
  "property_if c k v = (if c then [(k, v)] else [])"

definition truthy_string_property :: "string \<Rightarrow> string option \<Rightarrow> (string \<times> jsval) list" where
  "truthy_string_property k x =
     (case x of None \<Rightarrow> [] | Some s \<Rightarrow> property_if (s \<noteq> []) k (JStr s))"

definition defined_string_property :: "string \<Rightarrow> string option \<Rightarrow> (string \<times> jsval) list" where
  "defined_string_property k x = (case x of None \<Rightarrow> [] | Some s \<Rightarrow> [(k, JStr s)])"

definition array_property :: "string \<Rightarrow> string list option \<Rightarrow> (string \<times> jsval) list" where
  "array_property k x = (case x of None \<Rightarrow> [] | Some xs \<Rightarrow> [(k, JArr (map JStr xs))])"

definition truthy_value_property :: "string \<Rightarrow> jsval option \<Rightarrow> (string \<times> jsval) list" where
  "truthy_value_property k x =
     (case x of None \<Rightarrow> [] | Some v \<Rightarrow> property_if (truthy v) k v)"

text \<open>
  Both \<^verbatim>\<open>stripe_products\<close> and \<^verbatim>\<open>stripe_prices\<close> begin with the same block: the metadata
  string is parsed when it is truthy. \<open>Inl\<close> is the early return of the \<^verbatim>\<open>catch\<close>,
  \<open>Inr\<close> the value of \<^verbatim>\<open>parsedMetadata\<close> (\<open>None\<close> for \<^verbatim>\<open>undefined\<close>).
\<close>

definition parse_metadata :: "runtime \<Rightarrow> string option \<Rightarrow> payload + jsval option" where
  "parse_metadata rt metadata =
     (case metadata of
        None \<Rightarrow> Inr None
      | Some m \<Rightarrow>
          if m \<noteq> [] then
            (case JSON_parse rt m of
               None \<Rightarrow> Inl (Failure ''Invalid metadata JSON format'')
             | Some v \<Rightarrow> Inr (Some v))
          else Inr None)"

section \<open>The tool handlers\<close>

subsection \<open>\<^verbatim>\<open>stripe_products\<close>\<close>

definition stripe_products ::
  "runtime \<Rightarrow> 's stripe_client \<Rightarrow> string \<Rightarrow> string option \<Rightarrow> string option \<Rightarrow> string option \<Rightarrow>
   string list option \<Rightarrow> string option \<Rightarrow> bool option \<Rightarrow> 's \<Rightarrow> payload \<times> 's" where
  "stripe_products rt stripe action product_id name description images metadata active =
     (case parse_metadata rt metadata of
        Inl invalid \<Rightarrow> reply invalid
      | Inr parsedMetadata \<Rightarrow>
          if action = ''create'' then
            (case name of
               None \<Rightarrow> reply (Failure ''Product name is required for create action'')
             | Some n \<Rightarrow>
                 if n = [] then reply (Failure ''Product name is required for create action'')
                 else
                   await
                     (products_create stripe
                       (JObj ([(''name'', JStr n)]
                         @ truthy_string_property ''description'' description
                         @ array_property ''images'' images
                         @ truthy_value_property ''metadata'' parsedMetadata)))
                     (\<lambda>product.
                       Product_payload product
                         (''Successfully created product: '' @ prod_name product)))
          else if action = ''list'' then
            await
              (products_list stripe (JObj [(''limit'', JNum (Finite 100))]))
              (\<lambda>products.
                Products_payload (data products)
                  (''Found '' @ show_nat (length (data products)) @ '' product(s)''))
          else if action = ''retrieve'' then
            (case product_id of
               None \<Rightarrow> reply (Failure ''Product ID is required for retrieve action'')
             | Some pid \<Rightarrow>
                 if pid = [] then reply (Failure ''Product ID is required for retrieve action'')
                 else
                   await
                     (products_retrieve stripe pid)
                     (\<lambda>retrievedProduct.
                       Product_payload retrievedProduct
                         (''Retrieved product: '' @ prod_name retrievedProduct)))
          else if action = ''update'' then
            (case product_id of
               None \<Rightarrow> reply (Failure ''Product ID is required for update action'')
             | Some pid \<Rightarrow>
                 if pid = [] then reply (Failure ''Product ID is required for update action'')
                 else
                   await
                     (products_update stripe pid
                       (JObj (truthy_string_property ''name'' name
                         @ defined_string_property ''description'' description
                         @ array_property ''images'' images
                         @ truthy_value_property ''metadata'' parsedMetadata
                         @ (case active of None \<Rightarrow> [] | Some a \<Rightarrow> [(''active'', JBool a)]))))
                     (\<lambda>updatedProduct.
                       Product_payload updatedProduct
                         (''Successfully updated product: '' @ prod_name updatedProduct)))
          else if action = ''archive'' then
            (case product_id of
               None \<Rightarrow> reply (Failure ''Product ID is required for archive action'')
             | Some pid \<Rightarrow>
                 if pid = [] then reply (Failure ''Product ID is required for archive action'')
                 else
                   await
                     (products_update stripe pid (JObj [(''active'', JBool False)]))
                     (\<lambda>archivedProduct.
                       Product_payload archivedProduct
                         (''Successfully archived product: '' @ prod_name archivedProduct)))
          else reply (Failure (''Unknown action: '' @ action)))"

subsection \<open>\<^verbatim>\<open>stripe_prices\<close>\<close>

text \<open>
  \<^verbatim>\<open>${p.unit_amount ? (p.unit_amount / 100) : 'custom'} ${p.currency.toUpperCase()}\<close>,
  the part the four price messages share.
\<close>

definition amount_text :: "runtime \<Rightarrow> price \<Rightarrow> string" where
  "amount_text rt p =
     (case price_unit_amount p of
        None \<Rightarrow> ''custom''
      | Some n \<Rightarrow> if truthy_number n then hundredth_text rt n else ''custom'')
     @ '' '' @ toUpperCase rt (price_currency p)"

definition stripe_prices ::
  "runtime \<Rightarrow> 's stripe_client \<Rightarrow> string \<Rightarrow> string option \<Rightarrow> string option \<Rightarrow> number option \<Rightarrow>
   string option \<Rightarrow> string option \<Rightarrow> number option \<Rightarrow> string option \<Rightarrow> bool option \<Rightarrow>
   's \<Rightarrow> payload \<times> 's" where
  "stripe_prices rt stripe action price_id product_id unit_amount currency_arg recurring_interval
       recurring_interval_count_arg metadata active =
     (let currency = (case currency_arg of None \<Rightarrow> ''usd'' | Some c \<Rightarrow> c);
          recurring_interval_count =
            (case recurring_interval_count_arg of None \<Rightarrow> Finite 1 | Some c \<Rightarrow> c)
      in
      case parse_metadata rt metadata of
        Inl invalid \<Rightarrow> reply invalid
      | Inr parsedMetadata \<Rightarrow>
          if action = ''create'' then
            (case (product_id, unit_amount) of
               (Some pid, Some amount) \<Rightarrow>
                 if pid = [] \<or> \<not> truthy_number amount then
                   reply (Failure ''Product ID and unit_amount are required for create action'')
                 else
                   await
                     (prices_create stripe
                       (JObj ([(''product'', JStr pid),
                               (''unit_amount'', JNum amount),
                               (''currency'', JStr currency)]
                         @ (case recurring_interval of
                              None \<Rightarrow> []
                            | Some i \<Rightarrow>
                                property_if (i \<noteq> []) ''recurring''
                                  (JObj [(''interval'', JStr i),
                                         (''interval_count'', JNum recurring_interval_count)]))
                         @ truthy_value_property ''metadata'' parsedMetadata)))
                     (\<lambda>price.
                       Price_payload price
                         (''Successfully created price: '' @ amount_text rt price
                           @ (case price_recurring price of
                                None \<Rightarrow> []
                              | Some r \<Rightarrow> '' per '' @ interval r)))
             | _ \<Rightarrow> reply (Failure ''Product ID and unit_amount are required for create action''))
          else if action = ''list'' then
            await
              (prices_list stripe
                (JObj ([(''limit'', JNum (Finite 100))]
                  @ truthy_string_property ''product'' product_id)))
              (\<lambda>prices.
                Prices_payload (data prices)
                  (''Found '' @ show_nat (length (data prices)) @ '' price(s)''))
          else if action = ''retrieve'' then
            (case price_id of
               None \<Rightarrow> reply (Failure ''Price ID is required for retrieve action'')
             | Some pid \<Rightarrow>
                 if pid = [] then reply (Failure ''Price ID is required for retrieve action'')
                 else
                   await
                     (prices_retrieve stripe pid)
                     (\<lambda>retrievedPrice.
                       Price_payload retrievedPrice
                         (''Retrieved price: '' @ amount_text rt retrievedPrice)))
          else if action = ''update'' then
            (case price_id of
               None \<Rightarrow> reply (Failure ''Price ID is required for update action'')
             | Some pid \<Rightarrow>
                 if pid = [] then reply (Failure ''Price ID is required for update action'')
                 else
                   await
                     (prices_update stripe pid
                       (JObj (truthy_value_property ''metadata'' parsedMetadata
                         @ (case active of None \<Rightarrow> [] | Some a \<Rightarrow> [(''active'', JBool a)]))))
                     (\<lambda>updatedPrice.
                       Price_payload updatedPrice
                         (''Successfully updated price: '' @ amount_text rt updatedPrice)))
          else if action = ''archive'' then
            (case price_id of
               None \<Rightarrow> reply (Failure ''Price ID is required for archive action'')
             | Some pid \<Rightarrow>
                 if pid = [] then reply (Failure ''Price ID is required for archive action'')
                 else
                   await
                     (prices_update stripe pid (JObj [(''active'', JBool False)]))
                     (\<lambda>archivedPrice.
                       Price_payload archivedPrice
                         (''Successfully archived price: '' @ amount_text rt archivedPrice)))
          else reply (Failure (''Unknown action: '' @ action)))"

subsection \<open>\<^verbatim>\<open>stripe_webhooks\<close>\<close>

definition stripe_webhooks ::
  "'s stripe_client \<Rightarrow> string \<Rightarrow> string option \<Rightarrow> string option \<Rightarrow> string list option \<Rightarrow>
   string option \<Rightarrow> bool option \<Rightarrow> 's \<Rightarrow> payload \<times> 's" where
  "stripe_webhooks stripe action webhook_id url enabled_events description enabled =
     (if action = ''create'' then
        (case (url, enabled_events) of
           (Some u, Some events) \<Rightarrow>
             if u = [] then
               reply (Failure ''URL and enabled_events are required for create action'')
             else if \<not> startsWith u ''https://'' then
               reply (Failure ''Webhook URL must start with https://'')
             else
               await
                 (webhookEndpoints_create stripe
                   (JObj ([(''url'', JStr u), (''enabled_events'', JArr (map JStr events))]
                     @ truthy_string_property ''description'' description)))
                 (\<lambda>webhook.
                   Webhook_payload webhook
                     (''Successfully created webhook endpoint: '' @ endpoint_url webhook))
         | _ \<Rightarrow> reply (Failure ''URL and enabled_events are required for create action''))
      else if action = ''list'' then
        await
          (webhookEndpoints_list stripe (JObj [(''limit'', JNum (Finite 100))]))
          (\<lambda>webhooks.
            Webhooks_payload (data webhooks)
              (''Found '' @ show_nat (length (data webhooks)) @ '' webhook endpoint(s)''))
      else if action = ''retrieve'' then
        (case webhook_id of
           None \<Rightarrow> reply (Failure ''Webhook ID is required for retrieve action'')
         | Some wid \<Rightarrow>
             if wid = [] then reply (Failure ''Webhook ID is required for retrieve action'')
             else
               await
                 (webhookEndpoints_retrieve stripe wid)
                 (\<lambda>retrievedWebhook.
                   Webhook_payload retrievedWebhook
                     (''Retrieved webhook endpoint: '' @ endpoint_url retrievedWebhook)))
      else if action = ''update'' then
        (case webhook_id of
           None \<Rightarrow> reply (Failure ''Webhook ID is required for update action'')
         | Some wid \<Rightarrow>
             if wid = [] then reply (Failure ''Webhook ID is required for update action'')
             else
               await
                 (webhookEndpoints_update stripe wid
                   (JObj (truthy_string_property ''url'' url
                     @ array_property ''enabled_events'' enabled_events
                     @ defined_string_property ''description'' description
                     @ (case enabled of None \<Rightarrow> [] | Some e \<Rightarrow> [(''disabled'', JBool (\<not> e))]))))
                 (\<lambda>updatedWebhook.
                   Webhook_payload updatedWebhook
                     (''Successfully updated webhook endpoint: '' @ endpoint_url updatedWebhook)))
      else if action = ''delete'' then
        (case webhook_id of
           None \<Rightarrow> reply (Failure ''Webhook ID is required for delete action'')
         | Some wid \<Rightarrow>
             if wid = [] then reply (Failure ''Webhook ID is required for delete action'')
             else
               await
                 (webhookEndpoints_del stripe wid)
                 (\<lambda>deletedWebhook.
                   Deleted_webhook_payload deletedWebhook
                     ''Successfully deleted webhook endpoint''))
      else reply (Failure (''Unknown action: '' @ action)))"

subsection \<open>\<^verbatim>\<open>stripe_portal_config\<close>\<close>

text \<open>
  The \<^verbatim>\<open>create\<close> and \<^verbatim>\<open>update\<close> branches build the same two parts: the
  \<^verbatim>\<open>business_profile\<close> object, present when one of its three strings is truthy, and the
  \<^verbatim>\<open>features\<close> object, to which \<^verbatim>\<open>customer_update\<close> is added when the list of allowed
  updates is present.
\<close>

definition business_profile_property ::
  "string option \<Rightarrow> string option \<Rightarrow> string option \<Rightarrow> (string \<times> jsval) list" where
  "business_profile_property headline privacy_policy_url terms_of_service_url =
     property_if
       (truthy_string headline \<or> truthy_string privacy_policy_url \<or> truthy_string terms_of_service_url)
       ''business_profile''
       (JObj (truthy_string_property ''headline'' headline
         @ truthy_string_property ''privacy_policy_url'' privacy_policy_url
         @ truthy_string_property ''terms_of_service_url'' terms_of_service_url))"

definition features_object ::
  "bool \<Rightarrow> bool \<Rightarrow> bool \<Rightarrow> bool \<Rightarrow> bool \<Rightarrow> string list option \<Rightarrow> jsval" where
  "features_object invoice_history payment_method_update subscription_cancel subscription_pause
       subscription_update allowed_updates =
     JObj ([(''invoice_history'', JObj [(''enabled'', JBool invoice_history)]),
            (''payment_method_update'', JObj [(''enabled'', JBool payment_method_update)]),
            (''subscription_cancel'', JObj [(''enabled'', JBool subscription_cancel)]),
            (''subscription_pause'', JObj [(''enabled'', JBool subscription_pause)]),
            (''subscription_update'', JObj [(''enabled'', JBool subscription_update)])]
       @ (case allowed_updates of
            None \<Rightarrow> []
          | Some updates \<Rightarrow>
              [(''customer_update'',
                JObj [(''enabled'', JBool True), (''allowed_updates'', JArr (map JStr updates))])]))"

definition default_to :: "'a \<Rightarrow> 'a option \<Rightarrow> 'a" where
  "default_to d x = (case x of None \<Rightarrow> d | Some v \<Rightarrow> v)"

definition stripe_portal_config ::
  "'s stripe_client \<Rightarrow> string \<Rightarrow> string option \<Rightarrow> string option \<Rightarrow> string option \<Rightarrow> string option \<Rightarrow>
   string option \<Rightarrow> string list option \<Rightarrow> bool option \<Rightarrow> bool option \<Rightarrow> bool option \<Rightarrow>
   bool option \<Rightarrow> bool option \<Rightarrow> 's \<Rightarrow> payload \<times> 's" where
  "stripe_portal_config stripe action configuration_id business_profile_headline
       business_profile_privacy_policy_url business_profile_terms_of_service_url default_return_url
       features_customer_update_allowed_updates features_invoice_history_enabled
       features_payment_method_update_enabled features_subscription_cancel_enabled
       features_subscription_pause_enabled features_subscription_update_enabled =
     (let features =
            features_object
              (default_to True features_invoice_history_enabled)
              (default_to True features_payment_method_update_enabled)
              (default_to True features_subscription_cancel_enabled)
              (default_to False features_subscription_pause_enabled)
              (default_to True features_subscription_update_enabled)
              features_customer_update_allowed_updates;
          business_profile =
            business_profile_property business_profile_headline
              business_profile_privacy_policy_url business_profile_terms_of_service_url
      in
      if action = ''create'' then
        await
          (configurations_create stripe
            (JObj ([(''features'', features)]
              @ business_profile
              @ truthy_string_property ''default_return_url'' default_return_url)))
          (\<lambda>configuration.
            Configuration_payload configuration
              (''Successfully created portal configuration: '' @ config_id configuration))
      else if action = ''list'' then
        await
          (configurations_list stripe (JObj [(''limit'', JNum (Finite 100))]))
          (\<lambda>configurations.
            Configurations_payload (data configurations)
              (''Found '' @ show_nat (length (data configurations)) @ '' portal configuration(s)''))
      else if action = ''retrieve'' then
        (case configuration_id of
           None \<Rightarrow> reply (Failure ''Configuration ID is required for retrieve action'')
         | Some cid \<Rightarrow>
             if cid = [] then reply (Failure ''Configuration ID is required for retrieve action'')
             else
               await
                 (configurations_retrieve stripe cid)
                 (\<lambda>retrievedConfig.
                   Configuration_payload retrievedConfig
                     (''Retrieved portal configuration: '' @ config_id retrievedConfig)))
      else if action = ''update'' then
        (case configuration_id of
           None \<Rightarrow> reply (Failure ''Configuration ID is required for update action'')
         | Some cid \<Rightarrow>
             if cid = [] then reply (Failure ''Configuration ID is required for update action'')
             else
               await
                 (configurations_update stripe cid
                   (JObj (business_profile
                     @ truthy_string_property ''default_return_url'' default_return_url
                     @ [(''features'', features)])))
                 (\<lambda>updatedConfig.
                   Configuration_payload updatedConfig
                     (''Successfully updated portal configuration: '' @ config_id updatedConfig)))
      else reply (Failure (''Unknown action: '' @ action)))"

subsection \<open>\<^verbatim>\<open>stripe_query\<close>\<close>

text \<open>
  The \<^verbatim>\<open>filters\<close> argument. \<^verbatim>\<open>created\<close> and \<^verbatim>\<open>amount\<close> are objects of numeric
  bounds that the handler passes on as they are; the others are strings.
\<close>

record filters =
  created :: "jsval option"
  status :: "string option"
  type :: "string option"
  customer :: "string option"
  subscription :: "string option"
  invoice :: "string option"
  payment_intent :: "string option"
  amount :: "jsval option"

definition no_filters :: filters where
  "no_filters =
     \<lparr>created = None, status = None, type = None, customer = None, subscription = None,
      invoice = None, payment_intent = None, amount = None\<rparr>"

text \<open>\<^verbatim>\<open>Math.min(Math.max(limit || 10, 1), 100)\<close>, with the default \<^verbatim>\<open>limit = 10\<close>.\<close>

definition validLimit :: "number option \<Rightarrow> number" where
  "validLimit limit_arg =
     (let limit = default_to (Finite 10) limit_arg
      in Math_min (Math_max (if truthy_number limit then limit else Finite 10) (Finite 1)) (Finite 100))"

definition query_params :: "filters option \<Rightarrow> number option \<Rightarrow> string list option \<Rightarrow> jsval" where
  "query_params filters_arg limit expand =
     (let filters = default_to no_filters filters_arg
      in JObj ([(''limit'', JNum (validLimit limit))]
           @ truthy_value_property ''created'' (created filters)
           @ truthy_string_property ''status'' (status filters)
           @ truthy_string_property ''type'' (type filters)
           @ truthy_string_property ''customer'' (customer filters)
           @ truthy_string_property ''subscription'' (subscription filters)
           @ truthy_string_property ''invoice'' (invoice filters)
           @ truthy_string_property ''payment_intent'' (payment_intent filters)
           @ truthy_value_property ''amount'' (amount filters)
           @ array_property ''expand'' expand))"

definition query_payload :: "string \<Rightarrow> nat \<Rightarrow> bool \<Rightarrow> query_data \<Rightarrow> payload" where
  "query_payload resource count more_available records =
     Query_payload resource count more_available records
       (''Found '' @ show_nat count @ '' '' @ resource @ '' record(s)''
         @ (if more_available then '' (more available)'' else []))"

definition stripe_query ::
  "'s stripe_client \<Rightarrow> string \<Rightarrow> filters option \<Rightarrow> number option \<Rightarrow> string list option \<Rightarrow>
   's \<Rightarrow> payload \<times> 's" where
  "stripe_query stripe resource filters limit expand =
     (let params = query_params filters limit expand;
          objects = (\<lambda>result.
            query_payload resource (length (data result)) (has_more result) (Objects (data result)))
      in
      if resource = ''events'' then await (events_list stripe params) objects
      else if resource = ''charges'' then await (charges_list stripe params) objects
      else if resource = ''payment_intents'' then await (paymentIntents_list stripe params) objects
      else if resource = ''customers'' then await (customers_list stripe params) objects
      else if resource = ''subscriptions'' then await (subscriptions_list stripe params) objects
      else if resource = ''invoices'' then await (invoices_list stripe params) objects
      else if resource = ''products'' then
        await (products_list stripe params)
          (\<lambda>result.
            query_payload resource (length (data result)) (has_more result) (Products (data result)))
      else if resource = ''prices'' then
        await (prices_list stripe params)
          (\<lambda>result.
            query_payload resource (length (data result)) (has_more result) (Prices (data result)))
      else reply (Failure (''Unsupported resource: '' @ resource)))"

section \<open>The HTTP server\<close>

subsection \<open>Session registries\<close>

text \<open>
  \<^verbatim>\<open>streamableTransports\<close> and \<^verbatim>\<open>sseTransports\<close> are object literals used as
  dictionaries. The map holds the object's own properties. Reading \<^verbatim>\<open>registry[key]\<close> finds
  an own property, or else a property inherited from \<^verbatim>\<open>Object.prototype\<close> (its methods,
  and \<^verbatim>\<open>__proto__\<close>, all of them truthy), or else \<^verbatim>\<open>undefined\<close>.
\<close>

datatype 'a property = Own 'a | Inherited | Undefined

definition Object_prototype_keys :: "string list" where
  "Object_prototype_keys =
     [''constructor'', ''__defineGetter__'', ''__defineSetter__'', ''hasOwnProperty'',
      ''__lookupGetter__'', ''__lookupSetter__'', ''isPrototypeOf'', ''propertyIsEnumerable'',
      ''toString'', ''valueOf'', ''__proto__'', ''toLocaleString'']"

definition get_property :: "(string \<rightharpoonup> 'a) \<Rightarrow> string \<Rightarrow> 'a property" where
  "get_property registry key =
     (case registry key of
        Some v \<Rightarrow> Own v
      | None \<Rightarrow> if key \<in> set Object_prototype_keys then Inherited else Undefined)"

text \<open>\<^verbatim>\<open>sessionId && registry[sessionId]\<close>, for the optional session header.\<close>

definition session_transport :: "(string \<rightharpoonup> 'a) \<Rightarrow> string option \<Rightarrow> 'a property" where
  "session_transport registry sessionId =
     (case sessionId of
        None \<Rightarrow> Undefined
      | Some key \<Rightarrow> if key = [] then Undefined else get_property registry key)"

text \<open>
  A \<^verbatim>\<open>StreamableHTTPServerTransport\<close> object: its \<^verbatim>\<open>sessionId\<close> property, which the SDK
  sets when it handles the initialize request, and whether it has closed. The objects are
  kept in creation order, and a transport is named by its position. The SSE transports are
  named by their creation order as well.
\<close>

record transport =
  sessionId :: "string option"
  closed :: bool

record server_state =
  transports :: "transport list"
  streamableTransports :: "string \<rightharpoonup> nat"
  sse_created :: nat
  sseTransports :: "string \<rightharpoonup> nat"

definition initial_state :: server_state where
  "initial_state =
     \<lparr>transports = [], streamableTransports = Map.empty, sse_created = 0,
      sseTransports = Map.empty\<rparr>"

text \<open>
  \<^verbatim>\<open>new StreamableHTTPServerTransport(...)\<close>: the new object comes last, open and without
  a session identifier.
\<close>

definition new_transport :: "server_state \<Rightarrow> server_state" where
  "new_transport s = s\<lparr>transports := transports s @ [\<lparr>sessionId = None, closed = False\<rparr>]\<rparr>"

subsection \<open>Requests and what the handler does with them\<close>

text \<open>
  A request: \<^verbatim>\<open>req.method\<close>, the path of \<^verbatim>\<open>req.url\<close>, the \<^verbatim>\<open>mcp-session-id\<close> header,
  the \<^verbatim>\<open>sessionId\<close> of the query string, and the text of the body.
\<close>

record request =
  request_method :: string
  pathname :: string
  mcp_session_id :: "string option"
  query_sessionId :: "string option"
  body :: string

datatype content = Empty | Text string | Json jsval

text \<open>
  What the handler does with the response and the transports, in order: it writes a
  response itself (status, content type, content), or it calls the SDK, connecting the
  server to a transport or handing the request to a transport, which then answers.
  \<open>Rejected\<close> is an error that no \<^verbatim>\<open>try\<close> encloses. The empty list is a request the
  handler leaves without any response.
\<close>

datatype effect =
    Respond nat "string option" content
  | Connect nat
  | HandleRequest nat "jsval option"
  | ConnectSSE nat
  | HandlePostMessage nat jsval
  | Rejected

definition jsonrpc_error :: "int \<Rightarrow> string \<Rightarrow> effect" where
  "jsonrpc_error code message =
     Respond 400 (Some ''application/json'')
       (Json (JObj [(''jsonrpc'', JStr ''2.0''),
                    (''error'', JObj [(''code'', JNum (Finite (of_int code))),
                                      (''message'', JStr message)]),
                    (''id'', JNull)]))"

definition parse_error :: effect where
  "parse_error = jsonrpc_error (- 32700) ''Parse error''"

definition no_valid_session :: effect where
  "no_valid_session = jsonrpc_error (- 32000) ''Bad Request: No valid session ID provided''"

definition invalid_session :: effect where
  "invalid_session = Respond 400 (Some ''text/plain'') (Text ''Invalid or missing session ID'')"

definition error_json :: "nat \<Rightarrow> string \<Rightarrow> effect" where
  "error_json code message =
     Respond code (Some ''application/json'') (Json (JObj [(''error'', JStr message)]))"

definition health :: jsval where
  "health =
     JObj [(''status'', JStr ''healthy''),
           (''service'', JStr ''stripe-mcp-server''),
           (''version'', JStr ''1.0.0''),
           (''transport'', JStr ''http''),
           (''protocol'', JStr ''streamable-http-with-sse-fallback'')]"

definition service_index :: jsval where
  "service_index =
     JObj [(''name'', JStr ''Stripe MCP Server''),
           (''version'', JStr ''1.0.0''),
           (''description'', JStr ''Model Context Protocol server for Stripe integration''),
           (''transport'', JStr ''http''),
           (''protocol'', JStr ''streamable-http-with-sse-fallback''),
           (''endpoints'',
             JObj [(''mcp'', JStr ''/mcp (POST/GET/DELETE) - Modern Streamable HTTP''),
                   (''sse'', JStr ''/sse (GET) - Legacy SSE stream''),
                   (''messages'', JStr ''/messages (POST) - Legacy SSE messages''),
                   (''health'', JStr ''/health - Health check'')]),
           (''tools'',
             JArr [JStr ''stripe_connect'', JStr ''stripe_products'', JStr ''stripe_prices'',
                   JStr ''stripe_webhooks'', JStr ''stripe_portal_config'', JStr ''stripe_query''])]"

text \<open>
  The calls that a request makes into the SDK are promises, which resolve or reject:
  \<^verbatim>\<open>server.connect\<close> on the one \<^verbatim>\<open>McpServer\<close> of the module, and \<^verbatim>\<open>handleRequest\<close> or
  \<^verbatim>\<open>handlePostMessage\<close> of a transport. The constructor of an \<^verbatim>\<open>SSEServerTransport\<close>
  draws an identifier for itself. The SDK is not part of the repository, so what it
  answers during one request is a parameter of the model.
\<close>

record sdk_answers =
  randomUUID :: string
  connect_resolves :: bool
  handle_resolves :: bool

text \<open>
  What follows a call into the SDK: nothing more when it resolves; when it rejects, the
  response of the \<^verbatim>\<open>catch\<close> that encloses the call, or \<open>Rejected\<close> where there is none.
\<close>

definition on_rejection :: "bool \<Rightarrow> effect \<Rightarrow> effect list" where
  "on_rejection resolves caught = (if resolves then [] else [caught])"

text \<open>
  The body of a \<^verbatim>\<open>try\<close> that parses the request body and hands it to a transport found in
  a registry. A syntax error of \<^verbatim>\<open>JSON.parse\<close> goes to the \<^verbatim>\<open>catch\<close>; so do the
  \<^verbatim>\<open>TypeError\<close> of calling a method that an inherited property does not have, and a
  rejection of \<^verbatim>\<open>handleRequest\<close>.
\<close>

definition parse_and_handle ::
  "runtime \<Rightarrow> sdk_answers \<Rightarrow> string \<Rightarrow> nat property \<Rightarrow> effect \<Rightarrow> effect list" where
  "parse_and_handle rt sdk raw found caught =
     (case JSON_parse rt raw of
        None \<Rightarrow> [caught]
      | Some requestBody \<Rightarrow>
          (case found of
             Own t \<Rightarrow> HandleRequest t (Some requestBody) # on_rejection (handle_resolves sdk) caught
           | _ \<Rightarrow> [caught]))"

text \<open>
  The request listener of \<^verbatim>\<open>main\<close>. A request is handled in one step, its body already
  received. \<open>isInitializeRequest\<close> is the SDK's test of a parsed body, and \<open>sdk\<close> is what
  the SDK answers to the calls of this request. The CORS headers, set on every response
  alike, are left out.
\<close>

definition request_listener ::
  "runtime \<Rightarrow> (jsval \<Rightarrow> bool) \<Rightarrow> sdk_answers \<Rightarrow> request \<Rightarrow> server_state \<Rightarrow>
   effect list \<times> server_state" where
  "request_listener rt isInitializeRequest sdk req s =
     (if request_method req = ''OPTIONS'' then ([Respond 200 None Empty], s)
      else if pathname req = ''/mcp'' then
        (if request_method req = ''POST'' then
           (let sessionId = mcp_session_id req
            in
            if session_transport (streamableTransports s) sessionId \<noteq> Undefined then
              (parse_and_handle rt sdk (body req)
                 (session_transport (streamableTransports s) sessionId) parse_error, s)
            else
              (case JSON_parse rt (body req) of
                 None \<Rightarrow> ([parse_error], s)
               | Some requestBody \<Rightarrow>
                   if \<not> truthy_string sessionId \<and> isInitializeRequest requestBody then
                     (let t = length (transports s)
                      in (Connect t #
                            (if connect_resolves sdk then
                               HandleRequest t (Some requestBody)
                                 # on_rejection (handle_resolves sdk) parse_error
                             else [parse_error]),
                          new_transport s))
                   else if session_transport (streamableTransports s) sessionId \<noteq> Undefined then
                     (case session_transport (streamableTransports s) sessionId of
                        Own t \<Rightarrow>
                          (HandleRequest t (Some requestBody)
                             # on_rejection (handle_resolves sdk) parse_error, s)
                      | _ \<Rightarrow> ([parse_error], s))
                   else ([no_valid_session], s)))
         else if request_method req = ''GET'' then
           (case session_transport (streamableTransports s) (mcp_session_id req) of
              Undefined \<Rightarrow> ([invalid_session], s)
            | Own t \<Rightarrow> (HandleRequest t None # on_rejection (handle_resolves sdk) Rejected, s)
            | Inherited \<Rightarrow> ([Rejected], s))
         else if request_method req = ''DELETE'' then
           (case session_transport (streamableTransports s) (mcp_session_id req) of
              Undefined \<Rightarrow> ([invalid_session], s)
            | Own t \<Rightarrow> (HandleRequest t None # on_rejection (handle_resolves sdk) Rejected, s)
            | Inherited \<Rightarrow> ([Rejected], s))
         else ([], s))
      else if pathname req = ''/sse'' \<and> request_method req = ''GET'' then
        (let t = sse_created s
         in (ConnectSSE t # on_rejection (connect_resolves sdk) Rejected,
             s\<lparr>sse_created := Suc t, sseTransports := (sseTransports s)(randomUUID sdk \<mapsto> t)\<rparr>))
      else if pathname req = ''/messages'' \<and> request_method req = ''POST'' then
        (let sessionId = default_to ''undefined'' (query_sessionId req)
         in case get_property (sseTransports s) sessionId of
              Undefined \<Rightarrow> ([error_json 400 ''No transport found for sessionId''], s)
            | Own t \<Rightarrow>
                (case JSON_parse rt (body req) of
                   None \<Rightarrow> ([error_json 400 ''Invalid JSON''], s)
                 | Some message \<Rightarrow>
                     (HandlePostMessage t message
                        # on_rejection (handle_resolves sdk) (error_json 400 ''Invalid JSON''), s))
            | Inherited \<Rightarrow> ([error_json 400 ''Invalid JSON''], s))
      else if pathname req = ''/health'' then
        ([Respond 200 (Some ''application/json'') (Json health)], s)
      else if pathname req = ''/'' then
        ([Respond 200 (Some ''application/json'') (Json service_index)], s)
      else ([error_json 404 ''Not found''], s))"

subsection \<open>Callbacks and events\<close>




text \<open>
  Modelled from the spec: the MCP SDK's \<^verbatim>\<open>StreamableHTTPServerTransport\<close>, which is not
  part of the repository. The spec says that the SDK allocates the session identifier of a
  new session and that a transport signals its closure. So the SDK appears as two events
  beside the requests: a transport that is handling an initialize request draws an
  identifier from its \<^verbatim>\<open>sessionIdGenerator\<close> (\<^verbatim>\<open>randomUUID\<close>), keeps it as its
  \<^verbatim>\<open>sessionId\<close> and calls \<^verbatim>\<open>onsessioninitialized\<close>; a transport that closes calls
  \<^verbatim>\<open>onclose\<close>.
\<close>

datatype event =
    Request request sdk_answers
  | SessionInitialized nat string
  | TransportClosed nat
  | ResponseClosed string




text \<open>
  The textual form of a UUID, which \<^verbatim>\<open>randomUUID\<close> returns: 36 characters, hexadecimal
  digits in groups of 8, 4, 4, 4 and 12 with hyphens between them.
\<close>

definition uuid_shape :: "char \<Rightarrow> char" where
  "uuid_shape c =
     (if c = CHR ''-'' then CHR ''-''
      else if c \<in> set ''0123456789abcdef'' then CHR ''x''
      else CHR ''?'')"

definition is_uuid :: "string \<Rightarrow> bool" where
  "is_uuid sid = (map uuid_shape sid = ''xxxxxxxx-xxxx-xxxx-xxxx-xxxxxxxxxxxx'')"




text \<open>A request to \<^verbatim>\<open>/mcp\<close> with the given method, session header and body.\<close>

definition is_mcp :: "request \<Rightarrow> string \<Rightarrow> string option \<Rightarrow> string \<Rightarrow> bool" where
  "is_mcp req m sid raw =
     (request_method req = m \<and> pathname req = ''/mcp'' \<and> mcp_session_id req = sid
      \<and> body req = raw)"

section \<open>Properties of clients, and stubs to run the handlers on\<close>

text \<open>
  A client is deterministic when the result of each list call is a function of its
  parameters alone, whatever state the client is in.
\<close>

definition state_independent :: "('p \<Rightarrow> ('s, 'a) call) \<Rightarrow> bool" where
  "state_independent m = (\<forall>params s s'. fst (m params s) = fst (m params s'))"

definition deterministic :: "'s stripe_client \<Rightarrow> bool" where
  "deterministic stripe =
     (state_independent (events_list stripe) \<and> state_independent (charges_list stripe)
      \<and> state_independent (paymentIntents_list stripe) \<and> state_independent (customers_list stripe)
      \<and> state_independent (subscriptions_list stripe) \<and> state_independent (invoices_list stripe)
      \<and> state_independent (products_list stripe) \<and> state_independent (prices_list stripe))"

text \<open>
  The metadata argument passes the first block of \<^verbatim>\<open>stripe_products\<close> and
  \<^verbatim>\<open>stripe_prices\<close> when it is absent, empty, or parses.
\<close>

definition well_formed_metadata :: "runtime \<Rightarrow> string option \<Rightarrow> bool" where
  "well_formed_metadata rt metadata =
     (case metadata of None \<Rightarrow> True | Some m \<Rightarrow> m = [] \<or> JSON_parse rt m \<noteq> None)"

text \<open>
  What \<^verbatim>\<open>stripe_products\<close> and \<^verbatim>\<open>stripe_prices\<close> answer when the branch of the action
  would return the error \<open>message\<close>: the metadata block comes first.
\<close>

definition after_metadata :: "runtime \<Rightarrow> string option \<Rightarrow> string \<Rightarrow> payload" where
  "after_metadata rt metadata message =
     Failure (if well_formed_metadata rt metadata then message else ''Invalid metadata JSON format'')"

text \<open>
  A stub client whose state counts its invocations and whose answers are fixed objects,
  and a stub runtime whose \<open>JSON_parse\<close> knows three texts and rejects every other.
\<close>

definition stub_product :: product where
  "stub_product = \<lparr>prod_name = ''Gold Plan'', prod_other = JObj [(''id'', JStr ''prod_123'')]\<rparr>"

definition stub_price :: price where
  "stub_price =
     \<lparr>price_unit_amount = Some (Finite 2000), price_currency = ''usd'', price_recurring = None,
      price_other = JObj [(''id'', JStr ''price_123'')]\<rparr>"

definition stub_webhook :: webhook_endpoint where
  "stub_webhook =
     \<lparr>endpoint_url = ''https://example.com/hook'', endpoint_other = JObj [(''id'', JStr ''we_123'')]\<rparr>"

definition stub_configuration :: configuration where
  "stub_configuration = \<lparr>config_id = ''bpc_123'', config_other = JObj []\<rparr>"

definition counted :: "'a \<Rightarrow> (nat, 'a) call" where
  "counted x n = (Inr x, Suc n)"

definition counting_client :: "nat stripe_client" where
  "counting_client =
     \<lparr>products_create = (\<lambda>params. counted stub_product),
      products_list = (\<lambda>params. counted \<lparr>data = [stub_product], has_more = False\<rparr>),
      products_retrieve = (\<lambda>id. counted stub_product),
      products_update = (\<lambda>id params. counted stub_product),
      prices_create = (\<lambda>params. counted stub_price),
      prices_list = (\<lambda>params. counted \<lparr>data = [stub_price], has_more = False\<rparr>),
      prices_retrieve = (\<lambda>id. counted stub_price),
      prices_update = (\<lambda>id params. counted stub_price),
      webhookEndpoints_create = (\<lambda>params. counted stub_webhook),
      webhookEndpoints_list = (\<lambda>params. counted \<lparr>data = [stub_webhook], has_more = False\<rparr>),
      webhookEndpoints_retrieve = (\<lambda>id. counted stub_webhook),
      webhookEndpoints_update = (\<lambda>id params. counted stub_webhook),
      webhookEndpoints_del = (\<lambda>id. counted (JObj [(''deleted'', JBool True)])),
      configurations_create = (\<lambda>params. counted stub_configuration),
      configurations_list = (\<lambda>params. counted \<lparr>data = [stub_configuration], has_more = False\<rparr>),
      configurations_retrieve = (\<lambda>id. counted stub_configuration),
      configurations_update = (\<lambda>id params. counted stub_configuration),
      events_list = (\<lambda>params. counted \<lparr>data = [params], has_more = True\<rparr>),
      charges_list = (\<lambda>params. counted \<lparr>data = [], has_more = False\<rparr>),
      paymentIntents_list = (\<lambda>params. counted \<lparr>data = [], has_more = False\<rparr>),
      customers_list = (\<lambda>params. counted \<lparr>data = [], has_more = False\<rparr>),
      subscriptions_list = (\<lambda>params. counted \<lparr>data = [], has_more = False\<rparr>),
      invoices_list = (\<lambda>params. counted \<lparr>data = [], has_more = False\<rparr>)\<rparr>"

text \<open>
  A stub client whose state is the list of the parameter objects it has received (an
  identifier is recorded as a string), in the order of the calls; every list is empty.
\<close>

definition recorded :: "'a \<Rightarrow> jsval \<Rightarrow> (jsval list, 'a) call" where
  "recorded x params received = (Inr x, received @ [params])"

definition recording_client :: "jsval list stripe_client" where
  "recording_client =
     \<lparr>products_create = recorded stub_product,
      products_list = recorded \<lparr>data = [], has_more = False\<rparr>,
      products_retrieve = (\<lambda>id. recorded stub_product (JStr id)),
      products_update = (\<lambda>id. recorded stub_product),
      prices_create = recorded stub_price,
      prices_list = recorded \<lparr>data = [], has_more = False\<rparr>,
      prices_retrieve = (\<lambda>id. recorded stub_price (JStr id)),
      prices_update = (\<lambda>id. recorded stub_price),
      webhookEndpoints_create = recorded stub_webhook,
      webhookEndpoints_list = recorded \<lparr>data = [], has_more = False\<rparr>,
      webhookEndpoints_retrieve = (\<lambda>id. recorded stub_webhook (JStr id)),
      webhookEndpoints_update = (\<lambda>id. recorded stub_webhook),
      webhookEndpoints_del = (\<lambda>id. recorded (JObj [(''deleted'', JBool True)]) (JStr id)),
      configurations_create = recorded stub_configuration,
      configurations_list = recorded \<lparr>data = [], has_more = False\<rparr>,
      configurations_retrieve = (\<lambda>id. recorded stub_configuration (JStr id)),
      configurations_update = (\<lambda>id. recorded stub_configuration),
      events_list = recorded \<lparr>data = [], has_more = False\<rparr>,
      charges_list = recorded \<lparr>data = [], has_more = False\<rparr>,
      paymentIntents_list = recorded \<lparr>data = [], has_more = False\<rparr>,
      customers_list = recorded \<lparr>data = [], has_more = False\<rparr>,
      subscriptions_list = recorded \<lparr>data = [], has_more = False\<rparr>,
      invoices_list = recorded \<lparr>data = [], has_more = False\<rparr>\<rparr>"

definition initialize_text :: string where
  \<open>initialize_text =
     ''{"jsonrpc":"2.0","id":1,"method":"initialize","params":{"protocolVersion":"2025-03-26","capabilities":{},"clientInfo":{"name":"client","version":"1.0"}}}''\<close>

definition initialize_body :: jsval where
  "initialize_body =
     JObj [(''jsonrpc'', JStr ''2.0''), (''id'', JNum (Finite 1)), (''method'', JStr ''initialize''),
           (''params'',
             JObj [(''protocolVersion'', JStr ''2025-03-26''), (''capabilities'', JObj []),
                   (''clientInfo'', JObj [(''name'', JStr ''client''), (''version'', JStr ''1.0'')])])]"

definition tools_list_text :: string where
  \<open>tools_list_text = ''{"jsonrpc":"2.0","id":2,"method":"tools/list"}''\<close>

definition tools_list_body :: jsval where
  "tools_list_body =
     JObj [(''jsonrpc'', JStr ''2.0''), (''id'', JNum (Finite 2)), (''method'', JStr ''tools/list'')]"

definition stub_runtime :: runtime where
  "stub_runtime =
     \<lparr>JSON_parse = (\<lambda>text.
        if text = ''{}'' then Some (JObj [])
        else if text = initialize_text then Some initialize_body
        else if text = tools_list_text then Some tools_list_body
        else None),
      toUpperCase = (\<lambda>text. text),
      hundredth_text = (\<lambda>n. ''?'')\<rparr>"

definition session_1 :: string where
  "session_1 = ''123e4567-e89b-42d3-a456-426614174000''"

text \<open>
  Requests of one session: the initialize request, then a tool listing, a DELETE and a GET
  under the identifier \<open>session_1\<close>; and the state in which the first transport is
  registered under that identifier.
\<close>

definition mcp_request :: "string \<Rightarrow> string option \<Rightarrow> string \<Rightarrow> request" where
  "mcp_request m sid raw =
     \<lparr>request_method = m, pathname = ''/mcp'', mcp_session_id = sid, query_sessionId = None,
      body = raw\<rparr>"



text \<open>
  Answers of the SDK: one where every call resolves, and one where \<^verbatim>\<open>server.connect\<close>
  rejects, as a server does that refuses a second transport.
\<close>

definition sdk_resolving :: sdk_answers where
  "sdk_resolving = \<lparr>randomUUID = session_1, connect_resolves = True, handle_resolves = True\<rparr>"


definition stub_isInitializeRequest :: "jsval \<Rightarrow> bool" where
  "stub_isInitializeRequest v = (v = initialize_body)"

section \<open>Verified properties\<close>

subsection \<open>Helper facts\<close>

lemma await_Inr: "m s = (Inr x, s') \<Longrightarrow> await m k s = (k x, s')"
  by (simp add: await_def)

lemma fst_await:
  "fst (await m k s) = (case fst (m s) of Inl e \<Rightarrow> Failure e | Inr x \<Rightarrow> k x)"
  by (simp add: await_def handleError_def split: prod.splits sum.splits)

lemma parse_metadata_well_formed:
  "well_formed_metadata rt metadata \<Longrightarrow> \<exists>pm. parse_metadata rt metadata = Inr pm"
  by (auto simp add: well_formed_metadata_def parse_metadata_def split: option.splits)

lemma parse_metadata_malformed:
  "\<not> well_formed_metadata rt metadata \<Longrightarrow>
   parse_metadata rt metadata = Inl (Failure ''Invalid metadata JSON format'')"
  by (auto simp add: well_formed_metadata_def parse_metadata_def split: option.splits)

lemma show_nat_digit: "n < 10 \<Longrightarrow> show_nat n = [digit_char n]"
  by (subst show_nat.simps) simp

lemma show_nat_1: "show_nat (Suc 0) = ''1''"
  by (simp add: show_nat_digit digit_char_def)

lemma products_missing:
  "stripe_products rt stripe ''create'' product_id None description images metadata active s
     = (after_metadata rt metadata ''Product name is required for create action'', s)"
  "stripe_products rt stripe ''retrieve'' None name description images metadata active s
     = (after_metadata rt metadata ''Product ID is required for retrieve action'', s)"
  "stripe_products rt stripe ''update'' None name description images metadata active s
     = (after_metadata rt metadata ''Product ID is required for update action'', s)"
  "stripe_products rt stripe ''archive'' None name description images metadata active s
     = (after_metadata rt metadata ''Product ID is required for archive action'', s)"
  by (cases "well_formed_metadata rt metadata";
      auto simp add: after_metadata_def stripe_products_def reply_def parse_metadata_malformed
        dest!: parse_metadata_well_formed)+

lemma prices_missing:
  "stripe_prices rt stripe ''create'' price_id None unit_amount currency recurring_interval
       recurring_interval_count metadata active s
     = (after_metadata rt metadata ''Product ID and unit_amount are required for create action'', s)"
  "stripe_prices rt stripe ''create'' price_id product_id None currency recurring_interval
       recurring_interval_count metadata active s
     = (after_metadata rt metadata ''Product ID and unit_amount are required for create action'', s)"
  "stripe_prices rt stripe ''retrieve'' None product_id unit_amount currency recurring_interval
       recurring_interval_count metadata active s
     = (after_metadata rt metadata ''Price ID is required for retrieve action'', s)"
  "stripe_prices rt stripe ''update'' None product_id unit_amount currency recurring_interval
       recurring_interval_count metadata active s
     = (after_metadata rt metadata ''Price ID is required for update action'', s)"
  "stripe_prices rt stripe ''archive'' None product_id unit_amount currency recurring_interval
       recurring_interval_count metadata active s
     = (after_metadata rt metadata ''Price ID is required for archive action'', s)"
  by (cases "well_formed_metadata rt metadata";
      auto simp add: after_metadata_def stripe_prices_def reply_def parse_metadata_malformed
        split: option.splits dest!: parse_metadata_well_formed)+

lemma webhooks_missing:
  "stripe_webhooks stripe ''create'' webhook_id None enabled_events description enabled s
     = (Failure ''URL and enabled_events are required for create action'', s)"
  "stripe_webhooks stripe ''create'' webhook_id url None description enabled s
     = (Failure ''URL and enabled_events are required for create action'', s)"
  "stripe_webhooks stripe ''retrieve'' None url enabled_events description enabled s
     = (Failure ''Webhook ID is required for retrieve action'', s)"
  "stripe_webhooks stripe ''update'' None url enabled_events description enabled s
     = (Failure ''Webhook ID is required for update action'', s)"
  "stripe_webhooks stripe ''delete'' None url enabled_events description enabled s
     = (Failure ''Webhook ID is required for delete action'', s)"
  by (simp_all add: stripe_webhooks_def reply_def split: option.splits)

lemma portal_config_missing:
  "stripe_portal_config stripe ''retrieve'' None headline privacy_policy_url terms_of_service_url
       default_return_url allowed_updates invoice_history_enabled payment_method_update_enabled
       subscription_cancel_enabled subscription_pause_enabled subscription_update_enabled s
     = (Failure ''Configuration ID is required for retrieve action'', s)"
  "stripe_portal_config stripe ''update'' None headline privacy_policy_url terms_of_service_url
       default_return_url allowed_updates invoice_history_enabled payment_method_update_enabled
       subscription_cancel_enabled subscription_pause_enabled subscription_update_enabled s
     = (Failure ''Configuration ID is required for update action'', s)"
  by (simp_all add: stripe_portal_config_def reply_def Let_def)

lemma deterministic_counting_client: "deterministic counting_client"
  by (simp add: deterministic_def state_independent_def counting_client_def counted_def)

lemma state_independentD:
  "state_independent m \<Longrightarrow> fst (m p s1) = fst (m p s2)"
  unfolding state_independent_def by blast

lemma query_state_independent:
  assumes "deterministic stripe"
  shows "fst (stripe_query stripe resource filters limit expand s1)
         = fst (stripe_query stripe resource filters limit expand s2)"
proof -
  from assms have ind:
    "state_independent (events_list stripe)" "state_independent (charges_list stripe)"
    "state_independent (paymentIntents_list stripe)" "state_independent (customers_list stripe)"
    "state_independent (subscriptions_list stripe)" "state_independent (invoices_list stripe)"
    "state_independent (products_list stripe)" "state_independent (prices_list stripe)"
    by (simp_all add: deterministic_def)
  note same = ind [THEN state_independentD, of _ s1 s2]
  show ?thesis
    by (simp add: stripe_query_def Let_def reply_def fst_await same)
qed

subsection \<open>The session registry\<close>

lemma is_uuid_length: "is_uuid sid \<Longrightarrow> length sid = 36"
proof -
  assume "is_uuid sid"
  then have "length (map uuid_shape sid) = length ''xxxxxxxx-xxxx-xxxx-xxxx-xxxxxxxxxxxx''"
    by (simp only: is_uuid_def)
  then show ?thesis by simp
qed

lemma is_uuid_key: "is_uuid sid \<Longrightarrow> sid \<noteq> [] \<and> sid \<notin> set Object_prototype_keys"
  by (auto simp add: Object_prototype_keys_def dest: is_uuid_length)

lemma is_uuid_session_1: "is_uuid session_1"
  by (simp add: is_uuid_def session_1_def uuid_shape_def)


lemma session_transport_absent:
  "sid \<notin> set Object_prototype_keys \<Longrightarrow> registry sid = None \<Longrightarrow>
   session_transport registry (Some sid) = Undefined"
  by (simp add: session_transport_def get_property_def)


lemma post_unknown:
  assumes "is_mcp req ''POST'' (Some sid) raw"
    and "sid \<noteq> []" and "sid \<notin> set Object_prototype_keys"
    and "streamableTransports s sid = None"
  shows "request_listener rt isInitializeRequest sdk req s
         = ([if JSON_parse rt raw = None then parse_error else no_valid_session], s)"
  using assms
  by (auto simp add: is_mcp_def request_listener_def session_transport_absent truthy_string_def
      split: option.splits)



















lemma is_mcp_request: "is_mcp (mcp_request m sid raw) m sid raw"
  by (simp add: is_mcp_def mcp_request_def)




subsection \<open>The claims\<close>




text \<open>
  C2, as stated, at a body that is not JSON: the session header carries an identifier
  that was never issued, and the answer is the parse error, code -32700.
\<close>

theorem unknown_session_malformed_body_counterexample:
  "streamableTransports initial_state session_1 = None
   \<and> request_listener stub_runtime stub_isInitializeRequest sdk_resolving
       (mcp_request ''POST'' (Some session_1) ''{oops'') initial_state
     = ([jsonrpc_error (- 32700) ''Parse error''], initial_state)"
  by (simp add: request_listener_def mcp_request_def initial_state_def session_transport_def
      get_property_def Object_prototype_keys_def session_1_def stub_runtime_def
      initialize_text_def tools_list_text_def parse_error_def)

text \<open>
  C2 (amended): a POST to \<^verbatim>\<open>/mcp\<close> whose session header carries a non-empty identifier
  that is not in the streamable session registry, and that is not the name of a property
  which every object inherits, creates no session, and is answered with the JSON-RPC error
  of code -32000 and message \<^verbatim>\<open>Bad Request: No valid session ID provided\<close> whenever the
  body parses as JSON, whatever it contains; a body that does not parse is answered with
  the parse error of code -32700.
\<close>

theorem unknown_session_rejected:
  assumes "is_mcp req ''POST'' (Some sid) raw"
    and "sid \<noteq> []" and "sid \<notin> set Object_prototype_keys"
    and "streamableTransports s sid = None"
  shows "request_listener rt isInitializeRequest sdk req s
         = ([if JSON_parse rt raw = None
             then jsonrpc_error (- 32700) ''Parse error''
             else jsonrpc_error (- 32000) ''Bad Request: No valid session ID provided''], s)"
  using post_unknown [OF assms] by (simp add: parse_error_def no_valid_session_def)

theorem unknown_session_rejected_witness:
  "request_listener stub_runtime stub_isInitializeRequest sdk_resolving
     (mcp_request ''POST'' (Some session_1) initialize_text) initial_state
   = ([jsonrpc_error (- 32000) ''Bad Request: No valid session ID provided''], initial_state)"
proof -
  note req = is_mcp_request [of "''POST''" "Some session_1" initialize_text]
  have key: "session_1 \<noteq> []" "session_1 \<notin> set Object_prototype_keys"
    using is_uuid_key [OF is_uuid_session_1] by simp_all
  have absent: "streamableTransports initial_state session_1 = None"
    by (simp add: initial_state_def)
  have parses: "JSON_parse stub_runtime initialize_text \<noteq> None"
    by (simp add: stub_runtime_def)
  from unknown_session_rejected [OF req key absent, of stub_runtime stub_isInitializeRequest sdk_resolving]
    parses
  show ?thesis by simp
qed

text \<open>
  C3, as stated, at a \<^verbatim>\<open>stripe_products\<close> invocation that omits \<^verbatim>\<open>product_id\<close> for
  \<^verbatim>\<open>retrieve\<close> and carries a metadata string that does not parse: the error is the one
  of the metadata block, which names no required field.
\<close>

theorem missing_argument_malformed_metadata_counterexample:
  "stripe_products stub_runtime counting_client ''retrieve'' None None None None (Some ''{oops'')
     None 0
   = (Failure ''Invalid metadata JSON format'', 0)"
  by (simp add: stripe_products_def parse_metadata_def reply_def stub_runtime_def
      initialize_text_def tools_list_text_def)

text \<open>
  C3 (amended): a tool invocation that omits an argument which the selected action
  requires returns \<^verbatim>\<open>{success: false, error}\<close> and leaves the client untouched, whatever
  the client is. The error names the required field, except that \<^verbatim>\<open>stripe_products\<close> and
  \<^verbatim>\<open>stripe_prices\<close> answer \<^verbatim>\<open>'Invalid metadata JSON format'\<close> when the metadata argument
  is a non-empty string that does not parse (\<open>after_metadata\<close>). The required arguments
  are \<^verbatim>\<open>name\<close> (products create), \<^verbatim>\<open>product_id\<close> (products retrieve, update, archive),
  \<^verbatim>\<open>product_id\<close> and \<^verbatim>\<open>unit_amount\<close> (prices create), \<^verbatim>\<open>price_id\<close> (prices retrieve,
  update, archive), \<^verbatim>\<open>url\<close> and \<^verbatim>\<open>enabled_events\<close> (webhooks create), \<^verbatim>\<open>webhook_id\<close>
  (webhooks retrieve, update, delete) and \<^verbatim>\<open>configuration_id\<close> (portal configuration
  retrieve, update).
\<close>

theorem missing_required_argument_rejected:
  "stripe_products rt stripe ''create'' product_id None description images metadata active s
     = (after_metadata rt metadata ''Product name is required for create action'', s)
   \<and> stripe_products rt stripe ''retrieve'' None name description images metadata active s
     = (after_metadata rt metadata ''Product ID is required for retrieve action'', s)
   \<and> stripe_products rt stripe ''update'' None name description images metadata active s
     = (after_metadata rt metadata ''Product ID is required for update action'', s)
   \<and> stripe_products rt stripe ''archive'' None name description images metadata active s
     = (after_metadata rt metadata ''Product ID is required for archive action'', s)
   \<and> stripe_prices rt stripe ''create'' price_id None unit_amount currency recurring_interval
       recurring_interval_count metadata active s
     = (after_metadata rt metadata ''Product ID and unit_amount are required for create action'', s)
   \<and> stripe_prices rt stripe ''create'' price_id product_id None currency recurring_interval
       recurring_interval_count metadata active s
     = (after_metadata rt metadata ''Product ID and unit_amount are required for create action'', s)
   \<and> stripe_prices rt stripe ''retrieve'' None product_id unit_amount currency recurring_interval
       recurring_interval_count metadata active s
     = (after_metadata rt metadata ''Price ID is required for retrieve action'', s)
   \<and> stripe_prices rt stripe ''update'' None product_id unit_amount currency recurring_interval
       recurring_interval_count metadata active s
     = (after_metadata rt metadata ''Price ID is required for update action'', s)
   \<and> stripe_prices rt stripe ''archive'' None product_id unit_amount currency recurring_interval
       recurring_interval_count metadata active s
     = (after_metadata rt metadata ''Price ID is required for archive action'', s)
   \<and> stripe_webhooks stripe ''create'' webhook_id None enabled_events description enabled s
     = (Failure ''URL and enabled_events are required for create action'', s)
   \<and> stripe_webhooks stripe ''create'' webhook_id url None description enabled s
     = (Failure ''URL and enabled_events are required for create action'', s)
   \<and> stripe_webhooks stripe ''retrieve'' None url enabled_events description enabled s
     = (Failure ''Webhook ID is required for retrieve action'', s)
   \<and> stripe_webhooks stripe ''update'' None url enabled_events description enabled s
     = (Failure ''Webhook ID is required for update action'', s)
   \<and> stripe_webhooks stripe ''delete'' None url enabled_events description enabled s
     = (Failure ''Webhook ID is required for delete action'', s)
   \<and> stripe_portal_config stripe ''retrieve'' None headline privacy_policy_url
       terms_of_service_url default_return_url allowed_updates invoice_history_enabled
       payment_method_update_enabled subscription_cancel_enabled subscription_pause_enabled
       subscription_update_enabled s
     = (Failure ''Configuration ID is required for retrieve action'', s)
   \<and> stripe_portal_config stripe ''update'' None headline privacy_policy_url
       terms_of_service_url default_return_url allowed_updates invoice_history_enabled
       payment_method_update_enabled subscription_cancel_enabled subscription_pause_enabled
       subscription_update_enabled s
     = (Failure ''Configuration ID is required for update action'', s)"
  by (intro conjI products_missing prices_missing webhooks_missing portal_config_missing)

theorem missing_required_argument_rejected_witness:
  "stripe_products stub_runtime counting_client ''retrieve'' None None None None (Some ''{}'') None 0
     = (Failure ''Product ID is required for retrieve action'', 0)
   \<and> stripe_prices stub_runtime counting_client ''create'' None (Some ''prod_123'') None None None
       None (Some ''{}'') None 0
     = (Failure ''Product ID and unit_amount are required for create action'', 0)
   \<and> stripe_webhooks counting_client ''delete'' None None None None None 0
     = (Failure ''Webhook ID is required for delete action'', 0)
   \<and> stripe_portal_config counting_client ''update'' None None None None None None None None
       None None None 0
     = (Failure ''Configuration ID is required for update action'', 0)"
proof -
  have parses: "well_formed_metadata stub_runtime (Some ''{}'')"
    by (simp add: well_formed_metadata_def stub_runtime_def)
  note all =
    missing_required_argument_rejected [where rt = stub_runtime and stripe = counting_client
      and metadata = "Some ''{}''" and s = 0 and product_id = "Some ''prod_123''"
      and name = None and description = None and images = None and active = None
      and price_id = None and unit_amount = None and currency = None
      and recurring_interval = None and recurring_interval_count = None
      and webhook_id = None and url = None and enabled_events = None and enabled = None
      and headline = None and privacy_policy_url = None and terms_of_service_url = None
      and default_return_url = None and allowed_updates = None
      and invoice_history_enabled = None and payment_method_update_enabled = None
      and subscription_cancel_enabled = None and subscription_pause_enabled = None
      and subscription_update_enabled = None]
  from all parses show ?thesis
    by (simp add: after_metadata_def)
qed

text \<open>
  C4, as stated, at the empty string: it is a string and it is not valid JSON, but the
  test \<^verbatim>\<open>if (metadata)\<close> takes it for an absent argument, nothing is parsed, and the
  \<^verbatim>\<open>list\<close> action goes on to call the client.
\<close>

theorem malformed_metadata_empty_counterexample:
  "JSON_parse stub_runtime [] = None
   \<and> stripe_products stub_runtime counting_client ''list'' None None None None (Some []) None 0
     = (Products_payload [stub_product] ''Found 1 product(s)'', 1)"
  by (simp add: stub_runtime_def stripe_products_def parse_metadata_def await_def
      counting_client_def counted_def show_nat_1 initialize_text_def tools_list_text_def)

text \<open>
  C4 (amended): a \<^verbatim>\<open>stripe_products\<close> or \<^verbatim>\<open>stripe_prices\<close> invocation whose metadata
  argument is a non-empty string that is not valid JSON returns
  \<^verbatim>\<open>{success: false, error: 'Invalid metadata JSON format'}\<close> and leaves the client
  untouched, for every action and whatever the other arguments are.
\<close>

theorem malformed_metadata_rejected:
  assumes "m \<noteq> []" and "JSON_parse rt m = None"
  shows "stripe_products rt stripe action product_id name description images (Some m) active s
         = (Failure ''Invalid metadata JSON format'', s)
       \<and> stripe_prices rt stripe' action' price_id product_id' unit_amount currency
           recurring_interval recurring_interval_count (Some m) active' s'
         = (Failure ''Invalid metadata JSON format'', s')"
  using assms
  by (simp add: stripe_products_def stripe_prices_def parse_metadata_def reply_def)

theorem malformed_metadata_rejected_witness:
  "stripe_products stub_runtime counting_client ''list'' None None None None (Some ''{oops'') None 0
     = (Failure ''Invalid metadata JSON format'', 0)
   \<and> stripe_prices stub_runtime counting_client ''create'' None (Some ''prod_123'')
       (Some (Finite 2000)) None None None (Some ''{oops'') None 0
     = (Failure ''Invalid metadata JSON format'', 0)"
  by (rule malformed_metadata_rejected)
    (simp_all add: stub_runtime_def initialize_text_def tools_list_text_def)

text \<open>
  C5, as stated, at an empty \<^verbatim>\<open>url\<close>: the argument is supplied and does not start with
  \<^verbatim>\<open>https://\<close>, but the presence check takes the empty string for a missing one and
  answers with its own message.
\<close>

theorem webhook_create_empty_url_counterexample:
  "\<not> startsWith [] ''https://''
   \<and> stripe_webhooks counting_client ''create'' None (Some []) (Some [''charge.succeeded''])
        None None 0
     = (Failure ''URL and enabled_events are required for create action'', 0)"
  by (simp add: startsWith_def stripe_webhooks_def reply_def)

text \<open>
  C5 (amended): a \<^verbatim>\<open>stripe_webhooks\<close> invocation with action \<^verbatim>\<open>create\<close>, supplied
  \<^verbatim>\<open>enabled_events\<close> and a non-empty \<^verbatim>\<open>url\<close> that does not start with \<^verbatim>\<open>https://\<close>
  returns \<^verbatim>\<open>{success: false, error: 'Webhook URL must start with https://'}\<close> and leaves
  the client untouched, whatever the client is: \<^verbatim>\<open>webhookEndpoints.create\<close> is not reached.
\<close>

theorem webhook_create_requires_https:
  assumes "u \<noteq> []" and "\<not> startsWith u ''https://''"
  shows "stripe_webhooks stripe ''create'' webhook_id (Some u) (Some events) description enabled s
         = (Failure ''Webhook URL must start with https://'', s)"
  using assms by (simp add: stripe_webhooks_def reply_def)

theorem webhook_create_requires_https_witness:
  "stripe_webhooks counting_client ''create'' None (Some ''http://example.com/hook'')
     (Some [''charge.succeeded'']) None None 0
   = (Failure ''Webhook URL must start with https://'', 0)"
  by (rule webhook_create_requires_https) (simp_all add: startsWith_def)

text \<open>
  C6: when \<^verbatim>\<open>products.retrieve\<close> of the client returns a product for \<^verbatim>\<open>prod_123\<close>, the
  invocation of \<^verbatim>\<open>stripe_products\<close> with action \<^verbatim>\<open>retrieve\<close> and that product id
  returns \<^verbatim>\<open>{success: true, product, message: "Retrieved product: <name>"}\<close> with the
  product the client returned.
\<close>

theorem retrieve_product_payload:
  assumes "products_retrieve stripe ''prod_123'' s = (Inr p, s')"
  shows "stripe_products rt stripe ''retrieve'' (Some ''prod_123'') name description images None
           active s
         = (Product_payload p (''Retrieved product: '' @ prod_name p), s')"
  using assms by (simp add: stripe_products_def parse_metadata_def await_Inr)

theorem retrieve_product_payload_witness:
  "stripe_products stub_runtime counting_client ''retrieve'' (Some ''prod_123'') None None None None
     None 0
   = (Product_payload stub_product ''Retrieved product: Gold Plan'', 1)"
proof -
  have call: "products_retrieve counting_client ''prod_123'' 0 = (Inr stub_product, 1)"
    by (simp add: counting_client_def counted_def)
  show ?thesis
    using retrieve_product_payload [OF call, of stub_runtime None None None None]
    by (simp add: stub_product_def)
qed

text \<open>
  C7: against a deterministic client, a second invocation of \<^verbatim>\<open>stripe_query\<close> with the
  same arguments, run in the state the first one left the client in, returns the payload
  of the first.
\<close>

theorem query_idempotent:
  assumes "deterministic stripe"
  shows "fst (stripe_query stripe resource filters limit expand
               (snd (stripe_query stripe resource filters limit expand s)))
         = fst (stripe_query stripe resource filters limit expand s)"
  using assms by (rule query_state_independent)

theorem query_idempotent_witness:
  "stripe_query counting_client ''events'' None (Some (Finite 5)) None 0
     = (Query_payload ''events'' 1 True (Objects [JObj [(''limit'', JNum (Finite 5))]])
          ''Found 1 events record(s) (more available)'', 1)
   \<and> fst (stripe_query counting_client ''events'' None (Some (Finite 5)) None
        (snd (stripe_query counting_client ''events'' None (Some (Finite 5)) None 0)))
     = fst (stripe_query counting_client ''events'' None (Some (Finite 5)) None 0)"
proof -
  have first: "stripe_query counting_client ''events'' None (Some (Finite 5)) None 0
     = (Query_payload ''events'' 1 True (Objects [JObj [(''limit'', JNum (Finite 5))]])
          ''Found 1 events record(s) (more available)'', 1)"
    by (simp add: stripe_query_def Let_def query_params_def validLimit_def default_to_def
        truthy_number_def Math_max_def Math_min_def no_filters_def truthy_value_property_def
        truthy_string_property_def array_property_def await_def counting_client_def counted_def
        query_payload_def show_nat_1)
  from first query_idempotent [OF deterministic_counting_client] show ?thesis
    by blast
qed

text \<open>
  C8: a request to \<^verbatim>\<open>/mcp\<close> whose method is none of POST, GET, DELETE and OPTIONS gets no
  response: the handler does nothing at all with it (in particular it does not write the
  404 of an unknown path), and the state is as before.
\<close>

theorem mcp_other_method_unanswered:
  assumes "pathname req = ''/mcp''"
    and "request_method req \<noteq> ''POST''" and "request_method req \<noteq> ''GET''"
    and "request_method req \<noteq> ''DELETE''" and "request_method req \<noteq> ''OPTIONS''"
  shows "request_listener rt isInitializeRequest sdk req s = ([], s)"
  using assms by (simp add: request_listener_def)

theorem mcp_other_method_unanswered_witness:
  "request_listener stub_runtime stub_isInitializeRequest sdk_resolving
     \<lparr>request_method = ''PUT'', pathname = ''/mcp'', mcp_session_id = None, query_sessionId = None,
      body = ''{}''\<rparr> initial_state
   = ([], initial_state)"
  by (rule mcp_other_method_unanswered) simp_all

text \<open>
  C9, as stated, at an invocation whose metadata string does not parse: the metadata block
  returns first, with its own message.
\<close>

theorem zero_amount_malformed_metadata_counterexample:
  "stripe_prices stub_runtime counting_client ''create'' None (Some ''prod_123'') (Some (Finite 0))
     None None None (Some ''{oops'') None 0
   = (Failure ''Invalid metadata JSON format'', 0)"
  by (simp add: stripe_prices_def parse_metadata_def reply_def stub_runtime_def
      initialize_text_def tools_list_text_def)

text \<open>
  C9 (amended): a \<^verbatim>\<open>stripe_prices\<close> invocation with action \<^verbatim>\<open>create\<close>, a supplied
  \<^verbatim>\<open>product_id\<close> and \<^verbatim>\<open>unit_amount\<close> 0 always fails and leaves the client untouched,
  whatever the client is, so that a price of amount zero is never created. The error is
  \<^verbatim>\<open>'Product ID and unit_amount are required for create action'\<close> when the metadata
  argument is absent, empty or parses, and \<^verbatim>\<open>'Invalid metadata JSON format'\<close> otherwise.
\<close>

theorem zero_amount_price_rejected:
  "stripe_prices rt stripe ''create'' price_id (Some pid) (Some (Finite 0)) currency
     recurring_interval recurring_interval_count metadata active s
   = (Failure (if well_formed_metadata rt metadata
               then ''Product ID and unit_amount are required for create action''
               else ''Invalid metadata JSON format''), s)"
proof (cases "well_formed_metadata rt metadata")
  case True
  then obtain pm where "parse_metadata rt metadata = Inr pm"
    using parse_metadata_well_formed by blast
  with True show ?thesis
    by (simp add: stripe_prices_def reply_def truthy_number_def)
next
  case False
  then show ?thesis
    by (simp add: stripe_prices_def reply_def parse_metadata_malformed)
qed

theorem zero_amount_price_rejected_witness:
  "stripe_prices stub_runtime counting_client ''create'' None (Some ''prod_123'') (Some (Finite 0))
     (Some ''usd'') None None (Some ''{}'') None 0
   = (Failure ''Product ID and unit_amount are required for create action'', 0)"
  using zero_amount_price_rejected [of stub_runtime counting_client None "''prod_123''"
      "Some ''usd''" None None "Some ''{}''" None 0]
  by (simp add: well_formed_metadata_def stub_runtime_def)

text \<open>
  C10: for each of the eight resources, \<^verbatim>\<open>stripe_query\<close> makes the list call of that
  resource, whatever the client is, with a parameter object whose \<^verbatim>\<open>limit\<close> is
  \<open>validLimit\<close> of the argument. That limit is 10 when the argument is absent or zero, and
  \<^verbatim>\<open>min(max(limit, 1), 100)\<close> for any other number: 100 for a number from 100 on, 1 for a
  negative one.
\<close>

theorem query_limit_clamped:
  "(\<exists>rest.
      query_params filters limit expand = JObj ((''limit'', JNum (validLimit limit)) # rest)
      \<and> stripe_query stripe ''events'' filters limit expand s
        = await (events_list stripe (JObj ((''limit'', JNum (validLimit limit)) # rest)))
            (\<lambda>result. query_payload ''events'' (length (data result)) (has_more result)
               (Objects (data result))) s
      \<and> stripe_query stripe ''charges'' filters limit expand s
        = await (charges_list stripe (JObj ((''limit'', JNum (validLimit limit)) # rest)))
            (\<lambda>result. query_payload ''charges'' (length (data result)) (has_more result)
               (Objects (data result))) s
      \<and> stripe_query stripe ''payment_intents'' filters limit expand s
        = await (paymentIntents_list stripe (JObj ((''limit'', JNum (validLimit limit)) # rest)))
            (\<lambda>result. query_payload ''payment_intents'' (length (data result)) (has_more result)
               (Objects (data result))) s
      \<and> stripe_query stripe ''customers'' filters limit expand s
        = await (customers_list stripe (JObj ((''limit'', JNum (validLimit limit)) # rest)))
            (\<lambda>result. query_payload ''customers'' (length (data result)) (has_more result)
               (Objects (data result))) s
      \<and> stripe_query stripe ''subscriptions'' filters limit expand s
        = await (subscriptions_list stripe (JObj ((''limit'', JNum (validLimit limit)) # rest)))
            (\<lambda>result. query_payload ''subscriptions'' (length (data result)) (has_more result)
               (Objects (data result))) s
      \<and> stripe_query stripe ''invoices'' filters limit expand s
        = await (invoices_list stripe (JObj ((''limit'', JNum (validLimit limit)) # rest)))
            (\<lambda>result. query_payload ''invoices'' (length (data result)) (has_more result)
               (Objects (data result))) s
      \<and> stripe_query stripe ''products'' filters limit expand s
        = await (products_list stripe (JObj ((''limit'', JNum (validLimit limit)) # rest)))
            (\<lambda>result. query_payload ''products'' (length (data result)) (has_more result)
               (Products (data result))) s
      \<and> stripe_query stripe ''prices'' filters limit expand s
        = await (prices_list stripe (JObj ((''limit'', JNum (validLimit limit)) # rest)))
            (\<lambda>result. query_payload ''prices'' (length (data result)) (has_more result)
               (Prices (data result))) s)
   \<and> validLimit None = Finite 10
   \<and> validLimit (Some (Finite 0)) = Finite 10
   \<and> (l \<noteq> Finite 0 \<longrightarrow> validLimit (Some l) = Math_min (Math_max l (Finite 1)) (Finite 100))
   \<and> (l \<noteq> Finite 0 \<and> number_le (Finite 100) l \<longrightarrow> validLimit (Some l) = Finite 100)
   \<and> (l \<noteq> Finite 0 \<and> number_le l (Finite 0) \<longrightarrow> validLimit (Some l) = Finite 1)"
proof -
  obtain rest where
    params: "query_params filters limit expand = JObj ((''limit'', JNum (validLimit limit)) # rest)"
    by (simp add: query_params_def Let_def)
  have forwarded:
    "stripe_query stripe ''events'' filters limit expand s
        = await (events_list stripe (query_params filters limit expand))
            (\<lambda>result. query_payload ''events'' (length (data result)) (has_more result)
               (Objects (data result))) s"
    "stripe_query stripe ''charges'' filters limit expand s
        = await (charges_list stripe (query_params filters limit expand))
            (\<lambda>result. query_payload ''charges'' (length (data result)) (has_more result)
               (Objects (data result))) s"
    "stripe_query stripe ''payment_intents'' filters limit expand s
        = await (paymentIntents_list stripe (query_params filters limit expand))
            (\<lambda>result. query_payload ''payment_intents'' (length (data result)) (has_more result)
               (Objects (data result))) s"
    "stripe_query stripe ''customers'' filters limit expand s
        = await (customers_list stripe (query_params filters limit expand))
            (\<lambda>result. query_payload ''customers'' (length (data result)) (has_more result)
               (Objects (data result))) s"
    "stripe_query stripe ''subscriptions'' filters limit expand s
        = await (subscriptions_list stripe (query_params filters limit expand))
            (\<lambda>result. query_payload ''subscriptions'' (length (data result)) (has_more result)
               (Objects (data result))) s"
    "stripe_query stripe ''invoices'' filters limit expand s
        = await (invoices_list stripe (query_params filters limit expand))
            (\<lambda>result. query_payload ''invoices'' (length (data result)) (has_more result)
               (Objects (data result))) s"
    "stripe_query stripe ''products'' filters limit expand s
        = await (products_list stripe (query_params filters limit expand))
            (\<lambda>result. query_payload ''products'' (length (data result)) (has_more result)
               (Products (data result))) s"
    "stripe_query stripe ''prices'' filters limit expand s
        = await (prices_list stripe (query_params filters limit expand))
            (\<lambda>result. query_payload ''prices'' (length (data result)) (has_more result)
               (Prices (data result))) s"
    by (simp_all add: stripe_query_def Let_def)
  have absent: "validLimit None = Finite 10"
    by (simp add: validLimit_def Let_def default_to_def truthy_number_def Math_max_def Math_min_def)
  have zero: "validLimit (Some (Finite 0)) = Finite 10"
    by (simp add: validLimit_def Let_def default_to_def truthy_number_def Math_max_def Math_min_def)
  have nonzero:
    "l \<noteq> Finite 0 \<longrightarrow> validLimit (Some l) = Math_min (Math_max l (Finite 1)) (Finite 100)"
    by (simp add: validLimit_def Let_def default_to_def truthy_number_def)
  have large:
    "l \<noteq> Finite 0 \<and> number_le (Finite 100) l \<longrightarrow> validLimit (Some l) = Finite 100"
    by (cases l)
      (auto simp add: validLimit_def Let_def default_to_def truthy_number_def Math_max_def
        Math_min_def)
  have negative:
    "l \<noteq> Finite 0 \<and> number_le l (Finite 0) \<longrightarrow> validLimit (Some l) = Finite 1"
    by (cases l)
      (auto simp add: validLimit_def Let_def default_to_def truthy_number_def Math_max_def
        Math_min_def)
  from params forwarded [unfolded params] have forwarding:
    "\<exists>rest.
      query_params filters limit expand = JObj ((''limit'', JNum (validLimit limit)) # rest)
      \<and> stripe_query stripe ''events'' filters limit expand s
        = await (events_list stripe (JObj ((''limit'', JNum (validLimit limit)) # rest)))
            (\<lambda>result. query_payload ''events'' (length (data result)) (has_more result)
               (Objects (data result))) s
      \<and> stripe_query stripe ''charges'' filters limit expand s
        = await (charges_list stripe (JObj ((''limit'', JNum (validLimit limit)) # rest)))
            (\<lambda>result. query_payload ''charges'' (length (data result)) (has_more result)
               (Objects (data result))) s
      \<and> stripe_query stripe ''payment_intents'' filters limit expand s
        = await (paymentIntents_list stripe (JObj ((''limit'', JNum (validLimit limit)) # rest)))
            (\<lambda>result. query_payload ''payment_intents'' (length (data result)) (has_more result)
               (Objects (data result))) s
      \<and> stripe_query stripe ''customers'' filters limit expand s
        = await (customers_list stripe (JObj ((''limit'', JNum (validLimit limit)) # rest)))
            (\<lambda>result. query_payload ''customers'' (length (data result)) (has_more result)
               (Objects (data result))) s
      \<and> stripe_query stripe ''subscriptions'' filters limit expand s
        = await (subscriptions_list stripe (JObj ((''limit'', JNum (validLimit limit)) # rest)))
            (\<lambda>result. query_payload ''subscriptions'' (length (data result)) (has_more result)
               (Objects (data result))) s
      \<and> stripe_query stripe ''invoices'' filters limit expand s
        = await (invoices_list stripe (JObj ((''limit'', JNum (validLimit limit)) # rest)))
            (\<lambda>result. query_payload ''invoices'' (length (data result)) (has_more result)
               (Objects (data result))) s
      \<and> stripe_query stripe ''products'' filters limit expand s
        = await (products_list stripe (JObj ((''limit'', JNum (validLimit limit)) # rest)))
            (\<lambda>result. query_payload ''products'' (length (data result)) (has_more result)
               (Products (data result))) s
      \<and> stripe_query stripe ''prices'' filters limit expand s
        = await (prices_list stripe (JObj ((''limit'', JNum (validLimit limit)) # rest)))
            (\<lambda>result. query_payload ''prices'' (length (data result)) (has_more result)
               (Prices (data result))) s"
    by (intro exI [of _ rest] conjI)
  from forwarding absent zero nonzero large negative show ?thesis
    by (intro conjI)
qed

theorem query_limit_clamped_witness:
  "snd (stripe_query recording_client ''charges'' None (Some (Finite 250)) None [])
     = [JObj [(''limit'', JNum (Finite 100))]]
   \<and> snd (stripe_query recording_client ''customers'' None (Some (Finite (- 5))) None [])
     = [JObj [(''limit'', JNum (Finite 1))]]
   \<and> snd (stripe_query recording_client ''events'' None (Some (Finite 0)) None [])
     = [JObj [(''limit'', JNum (Finite 10))]]
   \<and> snd (stripe_query recording_client ''prices'' None None None [])
     = [JObj [(''limit'', JNum (Finite 10))]]
   \<and> snd (stripe_query recording_client ''invoices'' None (Some Infinity) None [])
     = [JObj [(''limit'', JNum (Finite 100))]]"
proof -
  have no_rest: "rest = []"
    if "query_params None limit None = JObj ((''limit'', JNum (validLimit limit)) # rest)"
    for limit rest
    using that
    by (simp add: query_params_def Let_def default_to_def no_filters_def
        truthy_value_property_def truthy_string_property_def array_property_def)
  have received: "snd (await (recorded x params) k []) = [params]"
    for x :: "'a api_list" and params k
    by (simp add: await_def recorded_def)
  have charges: "snd (stripe_query recording_client ''charges'' None (Some (Finite 250)) None [])
      = [JObj [(''limit'', JNum (Finite 100))]]"
  proof -
    note all = query_limit_clamped [where filters = None and limit = "Some (Finite 250)"
        and expand = None and stripe = recording_client and s = "[]" and l = "Finite 250"]
    from all [THEN conjunct2] have limit: "validLimit (Some (Finite 250)) = Finite 100"
      by (simp add: Math_max_def Math_min_def)
    from all [THEN conjunct1] obtain rest where
      "query_params None (Some (Finite 250)) None
        = JObj ((''limit'', JNum (validLimit (Some (Finite 250)))) # rest)"
      and call: "stripe_query recording_client ''charges'' None (Some (Finite 250)) None []
        = await (charges_list recording_client
                  (JObj ((''limit'', JNum (validLimit (Some (Finite 250)))) # rest)))
            (\<lambda>result. query_payload ''charges'' (length (data result)) (has_more result)
               (Objects (data result))) []"
      by blast
    from no_rest [OF this(1)] call limit show ?thesis
      by (simp add: recording_client_def received)
  qed
  have customers:
    "snd (stripe_query recording_client ''customers'' None (Some (Finite (- 5))) None [])
      = [JObj [(''limit'', JNum (Finite 1))]]"
  proof -
    note all = query_limit_clamped [where filters = None and limit = "Some (Finite (- 5))"
        and expand = None and stripe = recording_client and s = "[]" and l = "Finite (- 5)"]
    from all [THEN conjunct2] have limit: "validLimit (Some (Finite (- 5))) = Finite 1"
      by (simp add: Math_max_def Math_min_def)
    from all [THEN conjunct1] obtain rest where
      "query_params None (Some (Finite (- 5))) None
        = JObj ((''limit'', JNum (validLimit (Some (Finite (- 5))))) # rest)"
      and call: "stripe_query recording_client ''customers'' None (Some (Finite (- 5))) None []
        = await (customers_list recording_client
                  (JObj ((''limit'', JNum (validLimit (Some (Finite (- 5))))) # rest)))
            (\<lambda>result. query_payload ''customers'' (length (data result)) (has_more result)
               (Objects (data result))) []"
      by blast
    from no_rest [OF this(1)] call limit show ?thesis
      by (simp add: recording_client_def received)
  qed
  have events: "snd (stripe_query recording_client ''events'' None (Some (Finite 0)) None [])
      = [JObj [(''limit'', JNum (Finite 10))]]"
  proof -
    note all = query_limit_clamped [where filters = None and limit = "Some (Finite 0)"
        and expand = None and stripe = recording_client and s = "[]" and l = "Finite 0"]
    from all [THEN conjunct2] have limit: "validLimit (Some (Finite 0)) = Finite 10"
      by (simp add: Math_max_def Math_min_def)
    from all [THEN conjunct1] obtain rest where
      "query_params None (Some (Finite 0)) None
        = JObj ((''limit'', JNum (validLimit (Some (Finite 0)))) # rest)"
      and call: "stripe_query recording_client ''events'' None (Some (Finite 0)) None []
        = await (events_list recording_client
                  (JObj ((''limit'', JNum (validLimit (Some (Finite 0)))) # rest)))
            (\<lambda>result. query_payload ''events'' (length (data result)) (has_more result)
               (Objects (data result))) []"
      by blast
    from no_rest [OF this(1)] call limit show ?thesis
      by (simp add: recording_client_def received)
  qed
  have prices: "snd (stripe_query recording_client ''prices'' None None None [])
      = [JObj [(''limit'', JNum (Finite 10))]]"
  proof -
    note all = query_limit_clamped [where filters = None and limit = None
        and expand = None and stripe = recording_client and s = "[]" and l = "Finite 0"]
    from all [THEN conjunct2] have limit: "validLimit None = Finite 10"
      by (simp add: Math_max_def Math_min_def)
    from all [THEN conjunct1] obtain rest where
      "query_params None None None = JObj ((''limit'', JNum (validLimit None)) # rest)"
      and call: "stripe_query recording_client ''prices'' None None None []
        = await (prices_list recording_client (JObj ((''limit'', JNum (validLimit None)) # rest)))
            (\<lambda>result. query_payload ''prices'' (length (data result)) (has_more result)
               (Prices (data result))) []"
      by blast
    from no_rest [OF this(1)] call limit show ?thesis
      by (simp add: recording_client_def received)
  qed
  have invoices: "snd (stripe_query recording_client ''invoices'' None (Some Infinity) None [])
      = [JObj [(''limit'', JNum (Finite 100))]]"
  proof -
    note all = query_limit_clamped [where filters = None and limit = "Some Infinity"
        and expand = None and stripe = recording_client and s = "[]" and l = Infinity]
    from all [THEN conjunct2] have limit: "validLimit (Some Infinity) = Finite 100"
      by (simp add: Math_max_def Math_min_def)
    from all [THEN conjunct1] obtain rest where
      "query_params None (Some Infinity) None
        = JObj ((''limit'', JNum (validLimit (Some Infinity))) # rest)"
      and call: "stripe_query recording_client ''invoices'' None (Some Infinity) None []
        = await (invoices_list recording_client
                  (JObj ((''limit'', JNum (validLimit (Some Infinity))) # rest)))
            (\<lambda>result. query_payload ''invoices'' (length (data result)) (has_more result)
               (Objects (data result))) []"
      by blast
    from no_rest [OF this(1)] call limit show ?thesis
      by (simp add: recording_client_def received)
  qed
  from charges customers events prices invoices show ?thesis
    by (intro conjI)
qed

end
